theory Spec2Isabelle
  imports Main
begin

section \<open>Python strings\<close>

text \<open>
  A Python \<open>str\<close> is modelled as a \<open>string\<close>; the character numbered \<open>n\<close> stands for the
  code point \<open>n\<close>, so the model covers the strings whose code points are below 256.
  The character classes below are the ones the interpreter uses on that range.
\<close>

definition is_space :: "char \<Rightarrow> bool" where
  \<comment> \<open>\<open>str.isspace\<close>, also the class \<open>\s\<close> and what \<open>str.strip()\<close> removes\<close>
  "is_space c = (c \<in> set [CHR 0x09, CHR 0x0A, CHR 0x0B, CHR 0x0C, CHR 0x0D,
                            CHR 0x1C, CHR 0x1D, CHR 0x1E, CHR 0x1F, CHR 0x20,
                            CHR 0x85, CHR 0xA0])"

definition is_digit :: "char \<Rightarrow> bool" where
  \<comment> \<open>decimal digits: the class \<open>\d\<close> and the digits \<open>int()\<close> reads\<close>
  "is_digit c = (48 \<le> (of_char c :: nat) \<and> (of_char c :: nat) \<le> 57)"

definition digit_val :: "char \<Rightarrow> int" where
  "digit_val c = int (of_char c) - 48"

definition py_strip :: "string \<Rightarrow> string" where
  \<comment> \<open>\<open>s.strip()\<close>\<close>
  "py_strip s = rev (dropWhile is_space (rev (dropWhile is_space s)))"

fun py_split :: "char \<Rightarrow> string \<Rightarrow> string list" where
  \<comment> \<open>\<open>s.split(c)\<close> for a separator of one character\<close>
  "py_split c [] = [[]]"
| "py_split c (x # xs) =
     (if x = c then [] # py_split c xs
      else (case py_split c xs of [] \<Rightarrow> [[x]] | p # ps \<Rightarrow> (x # p) # ps))"

fun int_body :: "string \<Rightarrow> int \<Rightarrow> int option" where
  \<comment> \<open>the rest of a decimal literal after a digit: digits, single underscores between digits\<close>
  "int_body [] acc = Some acc"
| "int_body (c # cs) acc =
     (if is_digit c then int_body cs (acc * 10 + digit_val c)
      else if c = CHR ''_'' then
        (case cs of
           [] \<Rightarrow> None
         | d # ds \<Rightarrow> if is_digit d then int_body ds (acc * 10 + digit_val d) else None)
      else None)"

definition int_digits :: "string \<Rightarrow> int option" where
  "int_digits s =
     (case s of [] \<Rightarrow> None
      | c # cs \<Rightarrow> if is_digit c then int_body cs (digit_val c) else None)"

definition is_int_space :: "char \<Rightarrow> bool" where
  \<comment> \<open>the blanks \<open>int()\<close> skips at both ends: the separators \<open>0x1C\<close> to \<open>0x1F\<close>
      are white space for \<open>str\<close> but not for \<open>int()\<close>\<close>
  "is_int_space c = (c \<in> set [CHR 0x09, CHR 0x0A, CHR 0x0B, CHR 0x0C, CHR 0x0D, CHR 0x20,
                                CHR 0x85, CHR 0xA0])"

definition py_int :: "string \<Rightarrow> int option" where
  \<comment> \<open>\<open>int(s)\<close>; \<open>None\<close> is the ValueError\<close>
  "py_int s =
     (case rev (dropWhile is_int_space (rev (dropWhile is_int_space s))) of
        [] \<Rightarrow> None
      | c # cs \<Rightarrow>
          if c = CHR ''-'' then map_option uminus (int_digits cs)
          else if c = CHR ''+'' then int_digits cs
          else int_digits (c # cs))"

fun str_nat :: "nat \<Rightarrow> string" where
  \<comment> \<open>\<open>str(n)\<close> for a natural number\<close>
  "str_nat n =
     (if n < 10 then [char_of (48 + n)]
      else str_nat (n div 10) @ [char_of (48 + n mod 10)])"

declare str_nat.simps [simp del]

definition str_int :: "int \<Rightarrow> string" where
  \<comment> \<open>\<open>str(i)\<close>, what an f-string writes for an integer\<close>
  "str_int i = (if i < 0 then CHR ''-'' # str_nat (nat (- i)) else str_nat (nat i))"

section \<open>Format Resolver: the curation in \<open>get_info\<close>\<close>

text \<open>
  One entry of \<open>video_info['formats']\<close>. A field that may hold Python's \<open>None\<close> is an
  option. The two synthetic entries have no \<open>filesize\<close> key; they carry \<open>None\<close> there.
\<close>

record media_format =
  format_id :: "string option"
  ext :: string
  resolution :: string
  filesize :: "int option"
  format_note :: "string option"
  vcodec :: "string option"
  acodec :: "string option"

definition target_resolutions :: "int list" where
  "target_resolutions = [144, 240, 360, 480, 720, 1080, 1440, 2160]"

definition is_av :: "media_format \<Rightarrow> bool" where
  \<comment> \<open>the two \<open>continue\<close> tests of the first loop: the format is appended iff neither fires\<close>
  "is_av f =
     (let has_video = (vcodec f \<noteq> Some ''none'');
          has_audio = (acodec f \<noteq> Some ''none'')
      in if \<not> (has_video \<and> has_audio) \<or> resolution f = ''unknownxunknown'' then False
         else if ext f \<notin> set [''mp4'', ''webm''] then False
         else True)"

text \<open>
  The entries are dictionaries that the code shares by reference: the list
  \<open>av_formats\<close>, the table \<open>resolution_formats\<close> and the result \<open>formats\<close> all point into
  \<open>video_info['formats']\<close>. The model keeps that list as the store and uses the position
  of an entry as its address.
\<close>

definition av_formats :: "media_format list \<Rightarrow> nat list" where
  "av_formats fs = filter (\<lambda>i. is_av (fs ! i)) [0..<length fs]"

definition height_of :: "media_format \<Rightarrow> int option" where
  \<comment> \<open>\<open>int(format['resolution'].split('x')[1])\<close>; \<open>None\<close> is the IndexError or ValueError\<close>
  "height_of f =
     (case py_split CHR ''x'' (resolution f) of
        _ # h # _ \<Rightarrow> py_int h
      | _ \<Rightarrow> None)"

definition bucket_of :: "int \<Rightarrow> int option" where
  \<comment> \<open>the inner loop up to its \<open>break\<close>: the first target with \<open>height <= res\<close>\<close>
  "bucket_of height = find (\<lambda>res. height \<le> res) target_resolutions"

definition claim_bucket ::
  "media_format list \<Rightarrow> (int \<rightharpoonup> nat) \<Rightarrow> nat \<Rightarrow> (int \<rightharpoonup> nat)" where
  \<comment> \<open>one round of the second loop; \<open>rf res = None\<close> is the table's \<open>None\<close> entry\<close>
  "claim_bucket fs rf i =
     (case height_of (fs ! i) of
        None \<Rightarrow> rf
      | Some height \<Rightarrow>
          (case bucket_of height of
             None \<Rightarrow> rf
           | Some res \<Rightarrow> if rf res = None then rf(res \<mapsto> i) else rf))"

definition resolution_formats :: "media_format list \<Rightarrow> (int \<rightharpoonup> nat)" where
  "resolution_formats fs = foldl (claim_bucket fs) Map.empty (av_formats fs)"

fun label_formats ::
  "(int \<rightharpoonup> nat) \<Rightarrow> int list \<Rightarrow> media_format list \<times> nat list \<Rightarrow> media_format list \<times> nat list"
where
  \<comment> \<open>the third loop, over the table's items sorted by key: relabel in place, append the reference\<close>
  "label_formats rf [] (st, formats) = (st, formats)"
| "label_formats rf (res # rest) (st, formats) =
     (case rf res of
        None \<Rightarrow> label_formats rf rest (st, formats)
      | Some i \<Rightarrow>
          label_formats rf rest
            (st[i := (st ! i)\<lparr>format_note := Some (str_int res @ ''p'')\<rparr>], formats @ [i]))"

definition best_quality :: media_format where
  "best_quality =
     \<lparr>format_id = Some ''best[ext=mp4]/best'', ext = ''mp4'', resolution = ''Best quality'',
      filesize = None, format_note = Some ''Best quality'',
      vcodec = Some ''h264'', acodec = Some ''aac''\<rparr>"

definition audio_only :: media_format where
  "audio_only =
     \<lparr>format_id = Some ''bestaudio'', ext = ''mp3'', resolution = ''Audio only'',
      filesize = None, format_note = Some ''MP3 Audio'',
      vcodec = Some ''none'', acodec = Some ''mp3''\<rparr>"

definition curate :: "media_format list \<Rightarrow> media_format list \<times> media_format list" where
  \<comment> \<open>lines 274 to 339 of \<open>get_info\<close>: the store as the code leaves it, and the new
      \<open>video_info['formats']\<close> as it is serialised\<close>
  "curate fs =
     (let (st, refs) = label_formats (resolution_formats fs) target_resolutions (fs, []);
          formats = map (\<lambda>i. st ! i) refs;
          formats = (if formats = [] then formats @ [best_quality] else formats)
      in (st, formats @ [audio_only]))"

definition resolve :: "media_format list \<Rightarrow> media_format list" where
  "resolve fs = snd (curate fs)"

subsection \<open>Notions used to state the Resolver's properties\<close>

definition smallest_bucket :: "media_format list \<Rightarrow> nat \<Rightarrow> int option" where
  \<comment> \<open>the smallest target that is at least the height of entry \<open>i\<close>, if its height reads
      as a number and some target is large enough\<close>
  "smallest_bucket fs i = (case height_of (fs ! i) of None \<Rightarrow> None | Some h \<Rightarrow> bucket_of h)"

fun new_note :: "(int \<rightharpoonup> nat) \<Rightarrow> int list \<Rightarrow> nat \<Rightarrow> string option \<Rightarrow> string option" where
  \<comment> \<open>the note that the third loop leaves on the entry at address \<open>j\<close>\<close>
  "new_note rf [] j n = n"
| "new_note rf (res # rest) j n =
     new_note rf rest j (if rf res = Some j then Some (str_int res @ ''p'') else n)"

text \<open>
  The assignment as the specification words it: the buckets are visited in ascending
  order, and a bucket takes the first entry, in provider order, whose height is at most
  the bucket and that no smaller bucket has taken.
\<close>

definition covers :: "media_format list \<Rightarrow> int \<Rightarrow> nat \<Rightarrow> bool" where
  "covers fs b i = (case height_of (fs ! i) of None \<Rightarrow> False | Some h \<Rightarrow> h \<le> b)"

fun spec_buckets ::
  "media_format list \<Rightarrow> nat list \<Rightarrow> int list \<Rightarrow> nat list \<Rightarrow> (int \<rightharpoonup> nat)" where
  "spec_buckets fs av [] claimed = Map.empty"
| "spec_buckets fs av (b # bs) claimed =
     (case find (\<lambda>i. covers fs b i \<and> i \<notin> set claimed) av of
        None \<Rightarrow> spec_buckets fs av bs claimed
      | Some i \<Rightarrow> (spec_buckets fs av bs (i # claimed))(b \<mapsto> i))"

definition spec_resolution_formats :: "media_format list \<Rightarrow> (int \<rightharpoonup> nat)" where
  "spec_resolution_formats fs = spec_buckets fs (av_formats fs) target_resolutions []"

definition example_format :: "string \<Rightarrow> string \<Rightarrow> media_format" where
  \<comment> \<open>an mp4 entry with both codecs, for the concrete inputs below\<close>
  "example_format fid res =
     \<lparr>format_id = Some fid, ext = ''mp4'', resolution = res, filesize = None,
      format_note = Some [], vcodec = Some ''avc1'', acodec = Some ''mp4a''\<rparr>"

section \<open>The download name in \<open>get_file\<close>\<close>

definition is_word :: "char \<Rightarrow> bool" where
  \<comment> \<open>the class \<open>\w\<close> of a \<open>str\<close> pattern: letters, digits and other numeric characters,
      and the underscore\<close>
  "is_word c =
     (let n = (of_char c :: nat)
      in (48 \<le> n \<and> n \<le> 57) \<or> (65 \<le> n \<and> n \<le> 90) \<or> n = 95 \<or> (97 \<le> n \<and> n \<le> 122)
         \<or> n = 170 \<or> n = 178 \<or> n = 179 \<or> n = 181 \<or> n = 185 \<or> n = 186
         \<or> (188 \<le> n \<and> n \<le> 190) \<or> (192 \<le> n \<and> n \<le> 214)
         \<or> (216 \<le> n \<and> n \<le> 246) \<or> 248 \<le> n)"

fun re_sub_chars :: "('c \<Rightarrow> bool) \<Rightarrow> 'c list \<Rightarrow> 'c list \<Rightarrow> 'c list" where
  \<comment> \<open>\<open>re.sub(pattern, repl, s)\<close> for a pattern that is one character class\<close>
  "re_sub_chars cls repl [] = []"
| "re_sub_chars cls repl (c # s) =
     (if cls c then repl @ re_sub_chars cls repl s else c # re_sub_chars cls repl s)"

fun py_replace_chr :: "'c \<Rightarrow> 'c list \<Rightarrow> 'c list \<Rightarrow> 'c list" where
  \<comment> \<open>\<open>s.replace(old, new)\<close> for an \<open>old\<close> of one character\<close>
  "py_replace_chr old new [] = []"
| "py_replace_chr old new (c # s) =
     (if c = old then new @ py_replace_chr old new s else c # py_replace_chr old new s)"

definition strip_with :: "('c \<Rightarrow> bool) \<Rightarrow> 'c list \<Rightarrow> 'c list" where
  \<comment> \<open>\<open>s.strip()\<close>, given the class of white space\<close>
  "strip_with space s = rev (dropWhile space (rev (dropWhile space s)))"

text \<open>
  A title is a \<open>str\<close> of any code points. The line that cleans it is written here over
  any alphabet \<open>'c\<close>: \<open>word\<close> and \<open>space\<close> are the classes \<open>\w\<close> and \<open>\s\<close>, and the
  three characters are the hyphen, the space and the underscore. For a Python \<open>str\<close> the
  alphabet is the set of code points and the classes are those of the interpreter; for
  the strings of this theory they are \<open>is_word\<close> and \<open>is_space\<close>.
\<close>

definition sanitize_with ::
  "('c \<Rightarrow> bool) \<Rightarrow> ('c \<Rightarrow> bool) \<Rightarrow> 'c \<Rightarrow> 'c \<Rightarrow> 'c \<Rightarrow> 'c list \<Rightarrow> 'c list" where
  \<comment> \<open>\<open>re.sub(r'[^\w\s-]', '', title).strip().replace(' ', '_')\<close>\<close>
  "sanitize_with word space hyphen blank underscore title =
     py_replace_chr blank [underscore]
       (strip_with space
          (re_sub_chars (\<lambda>c. \<not> (word c \<or> space c \<or> c = hyphen)) [] title))"

definition sanitized_title :: "string \<Rightarrow> string" where
  "sanitized_title title =
     sanitize_with is_word is_space CHR ''-'' CHR '' '' CHR ''_'' title"

definition download_name :: "string \<Rightarrow> string \<Rightarrow> string \<Rightarrow> string" where
  \<comment> \<open>\<open>f"{platform}_{title}.{ext}"\<close> with the cleaned title\<close>
  "download_name platform title ext_s = platform @ ''_'' @ sanitized_title title @ ''.'' @ ext_s"

text \<open>
  The cleaning as the specification words it: after the removal and the trimming, each
  run of white space inside the title is replaced with an underscore.
\<close>

fun underscore_runs :: "bool \<Rightarrow> string \<Rightarrow> string" where
  \<comment> \<open>the flag says that the character before was white space\<close>
  "underscore_runs in_run [] = []"
| "underscore_runs in_run (c # s) =
     (if is_space c then
        (if in_run then underscore_runs True s else CHR ''_'' # underscore_runs True s)
      else c # underscore_runs False s)"

definition spec_sanitized_title :: "string \<Rightarrow> string" where
  "spec_sanitized_title title =
     underscore_runs False
       (py_strip (filter (\<lambda>c. is_word c \<or> is_space c \<or> c = CHR ''-'') title))"

section \<open>URL Classifier: \<open>validate_url\<close> and \<open>get_platform\<close>\<close>

subsection \<open>Exceptions\<close>

text \<open>An exception is a value; each constructor carries the text \<open>str(e)\<close>.\<close>

datatype exn =
    ValueError string
  | TypeError string
  | DownloadError string \<comment> \<open>\<open>yt_dlp.utils.DownloadError\<close>\<close>
  | OtherError string    \<comment> \<open>any other subclass of \<open>Exception\<close>\<close>

fun exn_str :: "exn \<Rightarrow> string" where
  "exn_str (ValueError m) = m"
| "exn_str (TypeError m) = m"
| "exn_str (DownloadError m) = m"
| "exn_str (OtherError m) = m"

subsection \<open>Regular expressions and \<open>re.search\<close>\<close>

text \<open>
  The patterns of \<open>validate_url\<close> use literals, \<open>.\<close>, \<open>\d\<close>, negated character
  sets, grouping, alternation and the quantifiers \<open>*\<close>, \<open>+\<close> and \<open>?\<close>. For such
  patterns \<open>re.search(p, s)\<close> finds a match exactly when some part of \<open>s\<close> belongs to
  the language of \<open>p\<close>; the matcher decides that with derivatives.
\<close>

datatype regex =
    Zero                  \<comment> \<open>matches nothing\<close>
  | Eps                   \<comment> \<open>matches the empty string\<close>
  | Lit char              \<comment> \<open>one literal character, escaped or not\<close>
  | AnyChr                \<comment> \<open>\<open>.\<close>: any character but the line feed\<close>
  | Digit                 \<comment> \<open>\<open>\d\<close>\<close>
  | NoneOf "char list"    \<comment> \<open>\<open>[^...]\<close>\<close>
  | Seq regex regex
  | Alt regex regex       \<comment> \<open>\<open>a|b\<close>\<close>
  | Star regex            \<comment> \<open>\<open>a*\<close>\<close>
  | Plus regex            \<comment> \<open>\<open>a+\<close>\<close>
  | Opt regex             \<comment> \<open>\<open>a?\<close>\<close>

fun nullable :: "regex \<Rightarrow> bool" where
  "nullable Zero = False"
| "nullable Eps = True"
| "nullable (Lit c) = False"
| "nullable AnyChr = False"
| "nullable Digit = False"
| "nullable (NoneOf cs) = False"
| "nullable (Seq a b) = (nullable a \<and> nullable b)"
| "nullable (Alt a b) = (nullable a \<or> nullable b)"
| "nullable (Star a) = True"
| "nullable (Plus a) = nullable a"
| "nullable (Opt a) = True"

definition seq :: "regex \<Rightarrow> regex \<Rightarrow> regex" where
  \<comment> \<open>\<open>Seq\<close>, with nothing after a part that matches nothing\<close>
  "seq a b = (case a of Zero \<Rightarrow> Zero | _ \<Rightarrow> Seq a b)"

definition alt :: "regex \<Rightarrow> regex \<Rightarrow> regex" where
  \<comment> \<open>\<open>Alt\<close>, without a side that matches nothing\<close>
  "alt a b = (case a of Zero \<Rightarrow> b | _ \<Rightarrow> (case b of Zero \<Rightarrow> a | _ \<Rightarrow> Alt a b))"

fun deriv :: "char \<Rightarrow> regex \<Rightarrow> regex" where
  \<comment> \<open>what is left to match after the character \<open>c\<close>\<close>
  "deriv c Zero = Zero"
| "deriv c Eps = Zero"
| "deriv c (Lit d) = (if c = d then Eps else Zero)"
| "deriv c AnyChr = (if c = CHR 0x0A then Zero else Eps)"
| "deriv c Digit = (if is_digit c then Eps else Zero)"
| "deriv c (NoneOf cs) = (if c \<in> set cs then Zero else Eps)"
| "deriv c (Seq a b) =
     (if nullable a then alt (seq (deriv c a) b) (deriv c b) else seq (deriv c a) b)"
| "deriv c (Alt a b) = alt (deriv c a) (deriv c b)"
| "deriv c (Star a) = seq (deriv c a) (Star a)"
| "deriv c (Plus a) = seq (deriv c a) (Star a)"
| "deriv c (Opt a) = deriv c a"

fun match_prefix :: "regex \<Rightarrow> string \<Rightarrow> bool" where
  \<comment> \<open>some prefix of the string matches; an attempt that can match nothing more stops\<close>
  "match_prefix r [] = nullable r"
| "match_prefix r (c # s) =
     (case r of Zero \<Rightarrow> False | _ \<Rightarrow> nullable r \<or> match_prefix (deriv c r) s)"

fun re_search :: "regex \<Rightarrow> string \<Rightarrow> bool" where
  \<comment> \<open>\<open>re.search(r, s)\<close> finds a match: a match starts at some position\<close>
  "re_search r [] = nullable r"
| "re_search r (c # s) = (match_prefix r (c # s) \<or> re_search r s)"

definition lits :: "string \<Rightarrow> regex" where
  \<comment> \<open>a run of literal characters\<close>
  "lits s = foldr (\<lambda>c r. Seq (Lit c) r) s Eps"

definition seqs :: "regex list \<Rightarrow> regex" where
  \<comment> \<open>the parts of a pattern, one after the other\<close>
  "seqs rs = foldr Seq rs Eps"

subsection \<open>The table \<open>patterns\<close>\<close>

definition youtube_standard :: regex where
  \<comment> \<open>\<open>(youtu\.be\/|youtube\.com\/(watch\?(.*&)?v=|(embed|v)\/))([^?&"\'>]+)\<close>\<close>
  "youtube_standard =
     seqs [Alt (lits ''youtu.be/'')
             (seqs [lits ''youtube.com/'',
                    Alt (seqs [lits ''watch?'', Opt (Seq (Star AnyChr) (Lit CHR ''&'')), lits ''v=''])
                        (seqs [Alt (lits ''embed'') (lits ''v''), Lit CHR ''/''])]),
           Plus (NoneOf [CHR ''?'', CHR ''&'', CHR 0x22, CHR 0x27, CHR ''>''])]"

definition youtube_shorts :: regex where
  \<comment> \<open>\<open>youtube\.com\/shorts\/([^?&"\'>]+)\<close>\<close>
  "youtube_shorts =
     seqs [lits ''youtube.com/shorts/'',
           Plus (NoneOf [CHR ''?'', CHR ''&'', CHR 0x22, CHR 0x27, CHR ''>''])]"

definition instagram_post :: regex where
  \<comment> \<open>\<open>instagram\.com\/(?:p|reel)\/([^/?]+)\<close>\<close>
  "instagram_post =
     seqs [lits ''instagram.com/'', Alt (lits ''p'') (lits ''reel''), Lit CHR ''/'',
           Plus (NoneOf ''/?'')]"

definition instagram_stories :: regex where
  \<comment> \<open>\<open>instagram\.com\/stories\/([^/?]+)\/([^/?]+)\<close>\<close>
  "instagram_stories =
     seqs [lits ''instagram.com/stories/'', Plus (NoneOf ''/?''), Lit CHR ''/'',
           Plus (NoneOf ''/?'')]"

definition facebook_videos :: regex where
  \<comment> \<open>\<open>facebook\.com\/[^\/]+\/videos\/([^/?]+)\<close>\<close>
  "facebook_videos =
     seqs [lits ''facebook.com/'', Plus (NoneOf ''/''), lits ''/videos/'', Plus (NoneOf ''/?'')]"

definition facebook_watch :: regex where
  \<comment> \<open>\<open>facebook\.com\/watch\/?\?v=([^&]+)\<close>\<close>
  "facebook_watch =
     seqs [lits ''facebook.com/watch'', Opt (Lit CHR ''/''), lits ''?v='', Plus (NoneOf ''&'')]"

definition fb_watch :: regex where
  \<comment> \<open>\<open>fb\.watch\/([^/?]+)\<close>\<close>
  "fb_watch = seqs [lits ''fb.watch/'', Plus (NoneOf ''/?'')]"

definition twitter_status :: regex where
  \<comment> \<open>\<open>twitter\.com\/[^\/]+\/status\/(\d+)\<close>\<close>
  "twitter_status =
     seqs [lits ''twitter.com/'', Plus (NoneOf ''/''), lits ''/status/'', Plus Digit]"

definition x_status :: regex where
  \<comment> \<open>\<open>x\.com\/[^\/]+\/status\/(\d+)\<close>\<close>
  "x_status = seqs [lits ''x.com/'', Plus (NoneOf ''/''), lits ''/status/'', Plus Digit]"

definition tiktok_video :: regex where
  \<comment> \<open>\<open>tiktok\.com\/@([^\/]+)\/video\/(\d+)\<close>\<close>
  "tiktok_video =
     seqs [lits ''tiktok.com/@'', Plus (NoneOf ''/''), lits ''/video/'', Plus Digit]"

definition tiktok_t :: regex where
  \<comment> \<open>\<open>tiktok\.com\/t\/([^/?]+)\<close>\<close>
  "tiktok_t = seqs [lits ''tiktok.com/t/'', Plus (NoneOf ''/?'')]"

definition reddit_comments :: regex where
  \<comment> \<open>\<open>reddit\.com\/r\/[^\/]+\/comments\/([^\/]+)\<close>\<close>
  "reddit_comments =
     seqs [lits ''reddit.com/r/'', Plus (NoneOf ''/''), lits ''/comments/'', Plus (NoneOf ''/'')]"

definition redd_it :: regex where
  \<comment> \<open>\<open>v\.redd\.it\/([^/?]+)\<close>\<close>
  "redd_it = seqs [lits ''v.redd.it/'', Plus (NoneOf ''/?'')]"

definition youtube_domains :: "string list" where
  "youtube_domains = [''www.youtube.com'', ''youtube.com'', ''youtu.be'', ''m.youtube.com'']"

definition instagram_domains :: "string list" where
  "instagram_domains = [''www.instagram.com'', ''instagram.com'']"

definition facebook_domains :: "string list" where
  "facebook_domains =
     [''www.facebook.com'', ''facebook.com'', ''fb.com'', ''fb.watch'', ''m.facebook.com'']"

definition twitter_domains :: "string list" where
  "twitter_domains = [''www.twitter.com'', ''twitter.com'', ''x.com'', ''www.x.com'']"

definition tiktok_domains :: "string list" where
  "tiktok_domains = [''www.tiktok.com'', ''tiktok.com'', ''vm.tiktok.com'']"

definition reddit_domains :: "string list" where
  "reddit_domains = [''www.reddit.com'', ''reddit.com'', ''v.redd.it'']"

text \<open>The dictionary \<open>patterns\<close>, in the order of its keys: tag, \<open>'domains'\<close>, \<open>'patterns'\<close>.\<close>

definition patterns :: "(string \<times> string list \<times> regex list) list" where
  "patterns =
     [(''youtube'', youtube_domains, [youtube_standard, youtube_shorts]),
      (''instagram'', instagram_domains, [instagram_post, instagram_stories]),
      (''facebook'', facebook_domains, [facebook_videos, facebook_watch, fb_watch]),
      (''twitter'', twitter_domains, [twitter_status, x_status]),
      (''tiktok'', tiktok_domains, [tiktok_video, tiktok_t]),
      (''reddit'', reddit_domains, [reddit_comments, redd_it])]"

subsection \<open>The two operations\<close>

definition py_lower :: "string \<Rightarrow> string" where
  \<comment> \<open>\<open>s.lower()\<close>\<close>
  "py_lower s =
     map (\<lambda>c. let n = (of_char c :: nat)
               in if (65 \<le> n \<and> n \<le> 90) \<or> (192 \<le> n \<and> n \<le> 214) \<or> (216 \<le> n \<and> n \<le> 222)
                  then char_of (n + 32) else c) s"

text \<open>
  \<open>urlparse(url).netloc\<close> is a call into the standard library. The operations take it as
  the parameter \<open>netloc_of\<close>, which returns the network location or the \<open>ValueError\<close>
  that \<open>urlparse\<close> raises; what is proved of them holds for every such function.
\<close>

fun search_any :: "regex list \<Rightarrow> string \<Rightarrow> bool" where
  \<comment> \<open>the loop over \<open>config['patterns']\<close>: true at the first pattern found in the URL\<close>
  "search_any [] url = False"
| "search_any (pattern # rest) url = (if re_search pattern url then True else search_any rest url)"

fun validate_loop :: "(string \<times> string list \<times> regex list) list \<Rightarrow> string \<Rightarrow> string \<Rightarrow> bool" where
  \<comment> \<open>the loop over \<open>patterns.items()\<close>, and the \<open>return False\<close> after it\<close>
  "validate_loop [] hostname url = False"
| "validate_loop ((platform, domains, pats) # rest) hostname url =
     (if list_ex (\<lambda>domain. domain = hostname) domains then
        (if search_any pats url then True else validate_loop rest hostname url)
      else validate_loop rest hostname url)"

definition validate_url :: "(string \<Rightarrow> exn + string) \<Rightarrow> string \<Rightarrow> exn + bool" where
  "validate_url netloc_of url =
     (case netloc_of url of
        Inl e \<Rightarrow> Inl e
      | Inr netloc \<Rightarrow> Inr (validate_loop patterns (py_lower netloc) url))"

definition platform_tag :: "string \<Rightarrow> string" where
  \<comment> \<open>the chain of tests that \<open>get_platform\<close> makes on \<open>hostname\<close>\<close>
  "platform_tag hostname =
     (if hostname \<in> set [''www.youtube.com'', ''youtube.com'', ''youtu.be'', ''m.youtube.com'']
      then ''youtube''
      else if hostname \<in> set [''www.instagram.com'', ''instagram.com'']
      then ''instagram''
      else if hostname \<in> set [''www.facebook.com'', ''facebook.com'', ''fb.com'',
                               ''fb.watch'', ''m.facebook.com'']
      then ''facebook''
      else if hostname \<in> set [''www.twitter.com'', ''twitter.com'', ''x.com'', ''www.x.com'']
      then ''twitter''
      else if hostname \<in> set [''www.tiktok.com'', ''tiktok.com'', ''vm.tiktok.com'']
      then ''tiktok''
      else if hostname \<in> set [''www.reddit.com'', ''reddit.com'', ''v.redd.it'']
      then ''reddit''
      else ''unknown'')"

definition get_platform :: "(string \<Rightarrow> exn + string) \<Rightarrow> string \<Rightarrow> exn + string" where
  "get_platform netloc_of url =
     (case netloc_of url of
        Inl e \<Rightarrow> Inl e
      | Inr netloc \<Rightarrow> (let hostname = py_lower netloc in Inr (platform_tag hostname)))"

subsection \<open>A model of \<open>urlsplit\<close>\<close>

text \<open>
  The splitting that \<open>urllib.parse.urlsplit\<close> does, which \<open>urlparse\<close> calls: leading
  control characters and blanks are dropped, tabs and line breaks are removed, a scheme is
  split off, and after \<open>//\<close> the network location runs up to the first \<open>/\<close>, \<open>?\<close> or
  \<open>#\<close>. A network location with only one of the two square brackets is a \<open>ValueError\<close>.
  The check of the address between two brackets is not modelled; no host name of the
  table has a bracket. \<open>urlparse\<close> returns the same network location, and the same path
  when the path has no semicolon.
\<close>

record split_result =
  scheme :: string
  netloc :: string
  path :: string
  query :: string
  fragment :: string

definition is_scheme_char :: "char \<Rightarrow> bool" where
  "is_scheme_char c =
     (let n = (of_char c :: nat)
      in (97 \<le> n \<and> n \<le> 122) \<or> (65 \<le> n \<and> n \<le> 90) \<or> (48 \<le> n \<and> n \<le> 57)
         \<or> c \<in> set ''+-.'')"

definition is_ascii_alpha :: "char \<Rightarrow> bool" where
  "is_ascii_alpha c =
     (let n = (of_char c :: nat) in (97 \<le> n \<and> n \<le> 122) \<or> (65 \<le> n \<and> n \<le> 90))"

definition split_scheme :: "string \<Rightarrow> string \<times> string" where
  \<comment> \<open>the scheme, lower-cased, and the rest; no scheme unless a colon follows a run of
      scheme characters that starts with a letter\<close>
  "split_scheme url =
     (let name = takeWhile (\<lambda>c. c \<noteq> CHR '':'') url;
          rest = dropWhile (\<lambda>c. c \<noteq> CHR '':'') url
      in if rest \<noteq> [] \<and> name \<noteq> [] \<and> is_ascii_alpha (hd name)
            \<and> list_all is_scheme_char name
         then (py_lower name, tl rest)
         else ([], url))"

definition split_at :: "char \<Rightarrow> string \<Rightarrow> string \<times> string" where
  \<comment> \<open>the parts before and after the first occurrence of the character, if there is one\<close>
  "split_at c s =
     (takeWhile (\<lambda>x. x \<noteq> c) s,
      (case dropWhile (\<lambda>x. x \<noteq> c) s of [] \<Rightarrow> [] | _ # rest \<Rightarrow> rest))"

definition urlsplit :: "string \<Rightarrow> exn + split_result" where
  "urlsplit url0 =
     (let url1 = dropWhile (\<lambda>c. (of_char c :: nat) \<le> 32) url0;
          url2 = filter (\<lambda>c. c \<notin> set [CHR 0x09, CHR 0x0D, CHR 0x0A]) url1;
          (sch, url3) = split_scheme url2;
          (loc, url4) =
             (if take 2 url3 = ''//''
              then (takeWhile (\<lambda>c. c \<notin> set ''/?#'') (drop 2 url3),
                    dropWhile (\<lambda>c. c \<notin> set ''/?#'') (drop 2 url3))
              else ([], url3));
          (url5, frag) = split_at CHR ''#'' url4;
          (url6, qry) = split_at CHR ''?'' url5
      in if (CHR ''['' \<in> set loc \<and> CHR '']'' \<notin> set loc)
            \<or> (CHR '']'' \<in> set loc \<and> CHR ''['' \<notin> set loc)
         then Inl (ValueError ''Invalid IPv6 URL'')
         else Inr \<lparr>scheme = sch, netloc = loc, path = url6, query = qry, fragment = frag\<rparr>)"

definition urlsplit_netloc :: "string \<Rightarrow> exn + string" where
  "urlsplit_netloc url = (case urlsplit url of Inl e \<Rightarrow> Inl e | Inr r \<Rightarrow> Inr (netloc r))"

definition url_hostname :: "string \<Rightarrow> string option" where
  \<comment> \<open>the attribute \<open>hostname\<close> of a parsed URL, computed from its network location:
      what follows the last \<open>@\<close>, up to the colon of the port (or between square
      brackets), lower-cased up to a \<open>%\<close>; \<open>None\<close> when it is empty\<close>
  "url_hostname loc =
     (let hostinfo = rev (takeWhile (\<lambda>c. c \<noteq> CHR ''@'') (rev loc));
          host = (if CHR ''['' \<in> set hostinfo
                  then fst (split_at CHR '']'' (snd (split_at CHR ''['' hostinfo)))
                  else fst (split_at CHR '':'' hostinfo))
      in if host = [] then None
         else Some (py_lower (fst (split_at CHR ''%'' host))
                    @ (if CHR ''%'' \<in> set host then CHR ''%'' # snd (split_at CHR ''%'' host)
                       else [])))"

section \<open>Job Manager and retrieval: \<open>download\<close> and \<open>get_file\<close>\<close>

subsection \<open>What the provider returns\<close>

text \<open>
  A key of a dictionary returned by the provider is absent, holds \<open>None\<close>, or holds a
  value; \<open>d.get(k)\<close> and \<open>d.get(k, default)\<close> tell the first two apart only when a default
  is given.
\<close>

datatype 'a pyfield = Absent | Null | Val 'a

fun py_get :: "'a pyfield \<Rightarrow> 'a option" where
  \<comment> \<open>\<open>d.get(k)\<close>; \<open>None\<close> is Python's \<open>None\<close>\<close>
  "py_get Absent = None"
| "py_get Null = None"
| "py_get (Val v) = Some v"

fun py_get_default :: "'a \<Rightarrow> 'a pyfield \<Rightarrow> 'a option" where
  \<comment> \<open>\<open>d.get(k, default)\<close>\<close>
  "py_get_default d Absent = Some d"
| "py_get_default d Null = None"
| "py_get_default d (Val v) = Some v"

definition fstr :: "string option \<Rightarrow> string" where
  \<comment> \<open>what an f-string writes for a value that is a string or \<open>None\<close>\<close>
  "fstr v = (case v of None \<Rightarrow> ''None'' | Some s \<Rightarrow> s)"

record provider_format =
  pf_format_id :: "string pyfield"
  pf_ext :: "string pyfield"
  pf_filesize :: "int pyfield"

record provider_info =
  info_id :: "string pyfield"
  info_title :: "string pyfield"
  info_thumbnail :: "string pyfield"
  info_duration :: "int pyfield"
  info_formats :: "provider_format list pyfield"

subsection \<open>State and responses\<close>

text \<open>An entry of the dictionary \<open>downloads\<close>; \<open>job_url\<close>, \<open>job_format_id\<close> and
  \<open>job_ext\<close> are its keys \<open>'url'\<close>, \<open>'format_id'\<close> and \<open>'ext'\<close>.\<close>

record download_info =
  job_url :: string
  job_format_id :: string
  output_file :: string
  job_ext :: "string option"
  status :: string

text \<open>A row of the table of the model class \<open>Download\<close>; the database assigns \<open>row_id\<close>.\<close>

record download_row =
  row_id :: nat
  row_video_id :: "string option"
  row_title :: "string option"
  row_format :: string
  row_platform :: string
  row_filesize :: "int option"
  row_thumbnail_url :: "string option"
  row_duration :: "int option"

record app_state =
  downloads :: "string \<rightharpoonup> download_info"
  db_rows :: "download_row list"
  temp_dir :: string

record video_info =
  vi_title :: "string option"
  vi_thumbnail :: "string option"
  vi_duration :: "int option"
  vi_formats :: "media_format list"
  vi_platform :: "string option"

datatype response =
    JsonError nat string           \<comment> \<open>\<open>jsonify({'error': ...}), code\<close>\<close>
  | JsonDownloaded string          \<comment> \<open>\<open>{'success': True, 'download_id': ..., 'message': ...}\<close>\<close>
  | JsonInfo video_info            \<comment> \<open>\<open>jsonify(video_info)\<close>\<close>
  | JsonDeleted                    \<comment> \<open>\<open>{'success': True, 'message': ...}\<close>\<close>
  | Abort nat "string option"      \<comment> \<open>\<open>abort(code, description)\<close>\<close>
  | SendFile string string string  \<comment> \<open>\<open>send_file\<close>: path, \<open>download_name\<close>, \<open>mimetype\<close>\<close>
  | Html                           \<comment> \<open>a page rendered from the rows of the database\<close>
  | Unhandled exn                  \<comment> \<open>an exception that leaves the view: the server answers 500\<close>

fun status_code :: "response \<Rightarrow> nat" where
  "status_code (JsonError code msg) = code"
| "status_code (JsonDownloaded i) = 200"
| "status_code (JsonInfo v) = 200"
| "status_code JsonDeleted = 200"
| "status_code (Abort code d) = code"
| "status_code (SendFile p n m) = 200"
| "status_code Html = 200"
| "status_code (Unhandled e) = 500"

definition truthy :: "string option \<Rightarrow> bool" where
  \<comment> \<open>the truth value of a form field: \<open>None\<close> and the empty string are false\<close>
  "truthy v = (case v of None \<Rightarrow> False | Some s \<Rightarrow> s \<noteq> [])"

definition invalid_url_message :: string where
  "invalid_url_message =
     ''Invalid URL. We support YouTube, Instagram, Facebook, Twitter, TikTok, Reddit, and more''"

definition path_join :: "string \<Rightarrow> string \<Rightarrow> string" where
  \<comment> \<open>\<open>os.path.join(a, b)\<close>\<close>
  "path_join a b =
     (if b \<noteq> [] \<and> hd b = CHR ''/'' then b
      else if a = [] \<or> last a = CHR ''/'' then a @ b
      else a @ ''/'' @ b)"

subsection \<open>\<open>download\<close>\<close>

text \<open>
  What the outside world answers during one call of \<open>download\<close>: the identifier that
  \<open>uuid.uuid4()\<close> draws, the result of \<open>extract_info\<close>, the result of the provider's
  \<open>download\<close>, the size of the output file if it exists, and the primary key that the
  commit assigns. The dictionary \<open>ydl_opts\<close> only feeds the provider's \<open>download\<close>, whose
  result is arbitrary here; it is not modelled. An \<open>extract_info\<close> that returns \<open>None\<close>
  counts as one that raises: the next line reads a key of the result, which raises.
\<close>

record download_env =
  uuid4 :: string
  extract_info :: "exn + provider_info"
  ydl_download :: "exn + unit"
  getsize :: "int option"
  db_commit :: "exn + nat"

fun find_format ::
  "provider_format list \<Rightarrow> string \<Rightarrow> (int option \<times> string option) option" where
  \<comment> \<open>the loop over \<open>info.get('formats', [])\<close>: \<open>filesize\<close> and \<open>ext\<close> of the first entry
      with the requested id\<close>
  "find_format [] fid = None"
| "find_format (f # fs) fid =
     (if py_get (pf_format_id f) = Some fid
      then Some (py_get (pf_filesize f), py_get_default ''mp4'' (pf_ext f))
      else find_format fs fid)"

definition select_format ::
  "provider_info \<Rightarrow> string \<Rightarrow> exn + (int option \<times> string option)" where
  \<comment> \<open>\<open>filesize\<close> and \<open>ext\<close> after the loop and its \<open>else\<close>; iterating over \<open>None\<close> is a TypeError\<close>
  "select_format info fid =
     (case py_get_default [] (info_formats info) of
        None \<Rightarrow> Inl (TypeError ''NoneType object is not iterable'')
      | Some fs \<Rightarrow>
          (case find_format fs fid of
             None \<Rightarrow> Inr (None, Some ''mp4'')
           | Some r \<Rightarrow> Inr r))"

definition download_job ::
  "download_env \<Rightarrow> app_state \<Rightarrow> string \<Rightarrow> string \<Rightarrow> string \<Rightarrow> app_state \<times> response" where
  \<comment> \<open>the \<open>try\<close> block of \<open>download\<close>; every exception in it is answered with its text and 500\<close>
  "download_job env st u fid platform =
     (let download_id = uuid4 env;
          output_path = path_join (temp_dir st) download_id
      in case extract_info env of
           Inl e \<Rightarrow> (st, JsonError 500 (exn_str e))
         | Inr info \<Rightarrow>
             (case select_format info fid of
                Inl e \<Rightarrow> (st, JsonError 500 (exn_str e))
              | Inr (size_hint, ext0) \<Rightarrow>
                  (let ext1 = (if fid = ''bestaudio'' then Some ''mp3''
                              else if fid = ''best[ext=mp4]/best'' then Some ''mp4''
                              else ext0);
                       entry = \<lparr>job_url = u, job_format_id = fid,
                                output_file = output_path @ ''.'' @ fstr ext1,
                                job_ext = ext1, status = ''downloading''\<rparr>;
                       st1 = st\<lparr>downloads := (downloads st)(download_id \<mapsto> entry)\<rparr>
                   in case ydl_download env of
                        Inl e \<Rightarrow> (st1, JsonError 500 (exn_str e))
                      | Inr _ \<Rightarrow>
                          (let st2 = st1\<lparr>downloads :=
                                     (downloads st1)(download_id \<mapsto> entry\<lparr>status := ''completed''\<rparr>)\<rparr>;
                               actual_file_size =
                                 (case getsize env of Some n \<Rightarrow> Some n | None \<Rightarrow> size_hint)
                           in case db_commit env of
                                Inl e \<Rightarrow> (st2, JsonError 500 (exn_str e))
                              | Inr key \<Rightarrow>
                                  (st2\<lparr>db_rows := db_rows st2 @
                                      [\<lparr>row_id = key,
                                        row_video_id = py_get (info_id info),
                                        row_title = py_get (info_title info),
                                        row_format = fid @ '' ('' @ fstr ext1 @ '')'',
                                        row_platform = platform,
                                        row_filesize = actual_file_size,
                                        row_thumbnail_url = py_get (info_thumbnail info),
                                        row_duration = py_get (info_duration info)\<rparr>]\<rparr>,
                                   JsonDownloaded download_id)))))"

definition download ::
  "(string \<Rightarrow> exn + string) \<Rightarrow> download_env \<Rightarrow> app_state \<Rightarrow> string option \<Rightarrow> string option
     \<Rightarrow> app_state \<times> response" where
  "download netloc_of env st url_field format_field =
     (if \<not> truthy url_field \<or> \<not> truthy format_field
      then (st, JsonError 400 ''URL and format are required'')
      else
        (case validate_url netloc_of (the url_field) of
           Inl e \<Rightarrow> (st, Unhandled e)
         | Inr valid \<Rightarrow>
             if \<not> valid then (st, JsonError 400 invalid_url_message)
             else
               (case get_platform netloc_of (the url_field) of
                  Inl e \<Rightarrow> (st, Unhandled e)
                | Inr platform \<Rightarrow>
                    download_job env st (the url_field) (the format_field) platform)))"

subsection \<open>\<open>get_file\<close>\<close>

record get_file_env =
  gf_extract_info :: "exn + provider_info"
  send_file :: "exn + unit"   \<comment> \<open>whether \<open>send_file\<close> raises, as it does for a missing file\<close>

definition serve_file ::
  "(string \<Rightarrow> exn + string) \<Rightarrow> get_file_env \<Rightarrow> download_info \<Rightarrow> exn + response" where
  \<comment> \<open>the \<open>try\<close> block of \<open>get_file\<close>\<close>
  "serve_file netloc_of env download_info =
     (case get_platform netloc_of (job_url download_info) of
        Inl e \<Rightarrow> Inl e
      | Inr platform \<Rightarrow>
          (case gf_extract_info env of
             Inl e \<Rightarrow> Inl e
           | Inr info \<Rightarrow>
               (case py_get_default ''video'' (info_title info) of
                  None \<Rightarrow> Inl (TypeError ''expected string or bytes-like object'')
                | Some title \<Rightarrow>
                    (let filename = download_name platform title (fstr (job_ext download_info));
                         mimetype =
                           (if job_ext download_info = Some ''mp3'' then ''audio'' else ''video'')
                           @ ''/'' @ fstr (job_ext download_info)
                     in case send_file env of
                          Inl e \<Rightarrow> Inl e
                        | Inr _ \<Rightarrow> Inr (SendFile (output_file download_info) filename mimetype)))))"

definition get_file ::
  "(string \<Rightarrow> exn + string) \<Rightarrow> get_file_env \<Rightarrow> app_state \<Rightarrow> string \<Rightarrow> response" where
  "get_file netloc_of env st download_id =
     (case downloads st download_id of
        None \<Rightarrow> Abort 404 None
      | Some download_info \<Rightarrow>
          if status download_info \<noteq> ''completed''
          then Abort 400 (Some ''Download not completed yet'')
          else
            (case serve_file netloc_of env download_info of
               Inl e \<Rightarrow> Abort 500 (Some (exn_str e))
             | Inr r \<Rightarrow> r))"

subsection \<open>The other routes, and a run of requests\<close>

definition get_info ::
  "(string \<Rightarrow> exn + string) \<Rightarrow> (exn + video_info option) \<Rightarrow> string option \<Rightarrow> response" where
  \<comment> \<open>the second argument is what \<open>get_video_info(url)\<close> returns or raises\<close>
  "get_info netloc_of fetched url_field =
     (if \<not> truthy url_field then JsonError 400 ''No URL provided''
      else
        (case validate_url netloc_of (the url_field) of
           Inl e \<Rightarrow> Unhandled e
         | Inr valid \<Rightarrow>
             if \<not> valid then JsonError 400 invalid_url_message
             else
               (case get_platform netloc_of (the url_field) of
                  Inl e \<Rightarrow> JsonError 500 (exn_str e)
                | Inr platform \<Rightarrow>
                    (case fetched of
                       Inl e \<Rightarrow> JsonError 500 (exn_str e)
                     | Inr None \<Rightarrow> JsonError 400 ''Could not retrieve video information''
                     | Inr (Some v) \<Rightarrow>
                         JsonInfo (v\<lparr>vi_platform := Some platform,
                                     vi_formats := resolve (vi_formats v)\<rparr>)))))"

definition delete_download :: "(exn + unit) \<Rightarrow> app_state \<Rightarrow> nat \<Rightarrow> app_state \<times> response" where
  \<comment> \<open>the first argument is the result of deleting and committing\<close>
  "delete_download committed st key =
     (if \<not> list_ex (\<lambda>r. row_id r = key) (db_rows st) then (st, Abort 404 None)
      else
        (case committed of
           Inl e \<Rightarrow> (st, JsonError 500 (exn_str e))
         | Inr _ \<Rightarrow> (st\<lparr>db_rows := filter (\<lambda>r. row_id r \<noteq> key) (db_rows st)\<rparr>, JsonDeleted)))"

datatype request =
    PostInfo "string option" "exn + video_info option"
  | PostDownload "string option" "string option" download_env
  | GetFile string get_file_env
  | DeleteDownload nat "exn + unit"
  | GetIndex
  | GetHistory

fun handle :: "(string \<Rightarrow> exn + string) \<Rightarrow> app_state \<Rightarrow> request \<Rightarrow> app_state \<times> response" where
  "handle netloc_of st (PostInfo u fetched) = (st, get_info netloc_of fetched u)"
| "handle netloc_of st (PostDownload u f env) = download netloc_of env st u f"
| "handle netloc_of st (GetFile i env) = (st, get_file netloc_of env st i)"
| "handle netloc_of st (DeleteDownload key committed) = delete_download committed st key"
| "handle netloc_of st GetIndex = (st, Html)"
| "handle netloc_of st GetHistory = (st, Html)"

fun run :: "(string \<Rightarrow> exn + string) \<Rightarrow> app_state \<Rightarrow> request list \<Rightarrow> app_state" where
  \<comment> \<open>the state after the requests, served one after the other\<close>
  "run netloc_of st [] = st"
| "run netloc_of st (r # rs) = run netloc_of (fst (handle netloc_of st r)) rs"

fun draws :: "request \<Rightarrow> string \<Rightarrow> bool" where
  \<comment> \<open>the request is a download for which \<open>uuid.uuid4()\<close> would give this identifier\<close>
  "draws (PostDownload u f env) i = (uuid4 env = i)"
| "draws r i = False"

subsection \<open>Concrete inputs for the examples\<close>

definition example_info :: provider_info where
  "example_info =
     \<lparr>info_id = Val ''abc'', info_title = Val ''Cat's Video: Part #1!'',
      info_thumbnail = Absent, info_duration = Val 10, info_formats = Val []\<rparr>"

definition example_job :: download_info where
  "example_job =
     \<lparr>job_url = ''https://www.youtube.com/watch?v=abc'', job_format_id = ''bestaudio'',
      output_file = ''/tmp/dl/id1.mp3'', job_ext = Some ''mp3'', status = ''completed''\<rparr>"

definition example_state :: app_state where
  "example_state =
     \<lparr>downloads = [''id1'' \<mapsto> example_job], db_rows = [], temp_dir = ''/tmp/dl''\<rparr>"

definition example_get_env :: get_file_env where
  "example_get_env = \<lparr>gf_extract_info = Inr example_info, send_file = Inr ()\<rparr>"

definition failing_env :: "string \<Rightarrow> download_env" where
  \<comment> \<open>a download that draws the given identifier and whose provider raises\<close>
  "failing_env i =
     \<lparr>uuid4 = i, extract_info = Inr example_info,
      ydl_download = Inl (DownloadError ''ERROR: unable to download video data''),
      getsize = None, db_commit = Inr 1\<rparr>"

section \<open>Properties of the Format Resolver\<close>

subsection \<open>Evaluation on the example entries\<close>

lemma is_av_example: "res \<noteq> ''unknownxunknown'' \<Longrightarrow> is_av (example_format fid res)"
  by (simp add: is_av_def example_format_def)

lemma height_example_100: "height_of (example_format fid ''100x100'') = Some 100"
  by (simp add: height_of_def example_format_def py_int_def is_int_space_def
        int_digits_def is_digit_def digit_val_def)

lemma height_example_700: "height_of (example_format fid ''1244x700'') = Some 700"
  by (simp add: height_of_def example_format_def py_int_def is_int_space_def
        int_digits_def is_digit_def digit_val_def)

lemma height_example_150: "height_of (example_format fid ''266x150'') = Some 150"
  by (simp add: height_of_def example_format_def py_int_def is_int_space_def
        int_digits_def is_digit_def digit_val_def)

lemma av_formats_two: "is_av a \<Longrightarrow> is_av b \<Longrightarrow> av_formats [a, b] = [0, 1]"
  by (simp add: av_formats_def upt_rec)

lemma bucket_labels:
  "str_int 144 = ''144''" "str_int 240 = ''240''" "str_int 360 = ''360''"
  "str_int 480 = ''480''" "str_int 720 = ''720''" "str_int 1080 = ''1080''"
  "str_int 1440 = ''1440''" "str_int 2160 = ''2160''"
  by code_simp+

subsection \<open>The bucket table\<close>

lemma claim_bucket_eq:
  "claim_bucket fs rf i res =
     (case rf res of Some j \<Rightarrow> Some j
      | None \<Rightarrow> if smallest_bucket fs i = Some res then Some i else None)"
  by (auto simp: claim_bucket_def smallest_bucket_def split: option.splits)

lemma foldl_claim_bucket:
  "foldl (claim_bucket fs) rf is res =
     (case rf res of Some j \<Rightarrow> Some j
      | None \<Rightarrow> find (\<lambda>i. smallest_bucket fs i = Some res) is)"
proof (induction "is" arbitrary: rf)
  case Nil
  then show ?case by (simp split: option.splits)
next
  case (Cons i "is")
  have "foldl (claim_bucket fs) rf (i # is) res =
          (case claim_bucket fs rf i res of Some j \<Rightarrow> Some j
           | None \<Rightarrow> find (\<lambda>i. smallest_bucket fs i = Some res) is)"
    using Cons.IH [of "claim_bucket fs rf i"] by simp
  also have "\<dots> = (case rf res of Some j \<Rightarrow> Some j
      | None \<Rightarrow> find (\<lambda>i. smallest_bucket fs i = Some res) (i # is))"
    unfolding claim_bucket_eq [of fs rf i res] by (simp split: option.splits)
  finally show ?case .
qed

lemma resolution_formats_find:
  "resolution_formats fs res = find (\<lambda>i. smallest_bucket fs i = Some res) (av_formats fs)"
  by (simp add: resolution_formats_def foldl_claim_bucket)

lemma bucket_of_iff:
  "bucket_of h = Some res \<longleftrightarrow>
     res \<in> set target_resolutions \<and> h \<le> res \<and>
     (\<forall>r \<in> set target_resolutions. h \<le> r \<longrightarrow> res \<le> r)"
  by (auto simp: bucket_of_def target_resolutions_def)

lemma resolution_formats_own_bucket:
  "resolution_formats fs res = Some i \<Longrightarrow> smallest_bucket fs i = Some res"
  by (auto simp: resolution_formats_find find_Some_iff)

text \<open>
  C1, as the code has it. Every entry is a candidate for one bucket only: the smallest
  target that is at least its height. A bucket holds the first AV entry, in provider
  order, whose smallest bucket it is. So an entry sits in at most one bucket, and it
  sits in no bucket other than its smallest one: an entry that finds its smallest bucket
  taken is dropped, it is not offered to a larger bucket.
\<close>

theorem bucket_assignment:
  "resolution_formats fs res = find (\<lambda>i. smallest_bucket fs i = Some res) (av_formats fs)
   \<and> (bucket_of h = Some res \<longleftrightarrow>
        res \<in> set target_resolutions \<and> h \<le> res \<and>
        (\<forall>r \<in> set target_resolutions. h \<le> r \<longrightarrow> res \<le> r))
   \<and> (resolution_formats fs res' = Some i \<longrightarrow> smallest_bucket fs i = Some res')
   \<and> (resolution_formats fs res' = Some i \<and> resolution_formats fs res'' = Some i
        \<longrightarrow> res' = res'')"
proof -
  have "resolution_formats fs res' = Some i \<and> resolution_formats fs res'' = Some i
        \<longrightarrow> res' = res''"
    using resolution_formats_own_bucket [of fs res' i]
          resolution_formats_own_bucket [of fs res'' i] by auto
  then show ?thesis
    using resolution_formats_find [of fs res] bucket_of_iff [of h res]
          resolution_formats_own_bucket [of fs res' i]
    by blast
qed

theorem bucket_assignment_witness:
  "resolution_formats [example_format ''A'' ''100x100'', example_format ''B'' ''100x100''] 144
     = Some 0
   \<and> bucket_of 100 = Some 144
   \<and> smallest_bucket [example_format ''A'' ''100x100'', example_format ''B'' ''100x100''] 0
     = Some 144"
  using bucket_assignment
    [of "[example_format ''A'' ''100x100'', example_format ''B'' ''100x100'']"
        144 100 144 0 144]
  by (simp add: av_formats_two is_av_example smallest_bucket_def height_example_100
        bucket_of_def target_resolutions_def)

text \<open>
  C1, as the specification states it, fails on two entries of height 100: the code
  leaves bucket 240 empty, the stated rule gives it the second entry.
\<close>

theorem first_match_counterexample:
  "resolution_formats [example_format ''A'' ''100x100'', example_format ''B'' ''100x100''] 240
     = None
   \<and> spec_resolution_formats
       [example_format ''A'' ''100x100'', example_format ''B'' ''100x100''] 240 = Some 1"
  by (simp add: resolution_formats_def spec_resolution_formats_def av_formats_two is_av_example
        claim_bucket_def height_example_100 bucket_of_def target_resolutions_def covers_def)

subsection \<open>The curated list\<close>

lemma resolve_two:
  assumes "is_av a" "is_av b" "height_of a = Some 700" "height_of b = Some 150"
  shows "resolve [a, b] =
           [b\<lparr>format_note := Some ''240p''\<rparr>, a\<lparr>format_note := Some ''720p''\<rparr>, audio_only]"
  using assms
  by (simp add: resolve_def curate_def resolution_formats_def av_formats_two claim_bucket_def
        bucket_of_def target_resolutions_def bucket_labels)

text \<open>
  C2. Two AV entries in provider order, the first of height 700 and the second of
  height 150, give three entries: the second relabelled 240p, the first relabelled 720p,
  then the audio-only entry; nothing is listed for bucket 144.
\<close>

theorem two_formats:
  assumes "is_av a" "is_av b" "height_of a = Some 700" "height_of b = Some 150"
  shows "resolve [a, b] =
           [b\<lparr>format_note := Some ''240p''\<rparr>, a\<lparr>format_note := Some ''720p''\<rparr>, audio_only]
         \<and> resolution_formats [a, b] 144 = None"
  using assms resolve_two [OF assms]
  by (simp add: resolution_formats_def av_formats_two claim_bucket_def
        bucket_of_def target_resolutions_def)

theorem two_formats_witness:
  "resolve [example_format ''A'' ''1244x700'', example_format ''B'' ''266x150''] =
     [(example_format ''B'' ''266x150'')\<lparr>format_note := Some ''240p''\<rparr>,
      (example_format ''A'' ''1244x700'')\<lparr>format_note := Some ''720p''\<rparr>,
      audio_only]
   \<and> resolution_formats [example_format ''A'' ''1244x700'', example_format ''B'' ''266x150''] 144
       = None"
  using two_formats [of "example_format ''A'' ''1244x700''" "example_format ''B'' ''266x150''"]
  by (simp add: is_av_example height_example_700 height_example_150)

lemma av_formats_none: "\<forall>f \<in> set fs. \<not> is_av f \<Longrightarrow> av_formats fs = []"
  by (auto simp: av_formats_def filter_empty_conv)

lemma label_formats_empty: "label_formats Map.empty ts (st, acc) = (st, acc)"
  by (induction ts) auto

lemma resolve_last: "resolve fs \<noteq> [] \<and> last (resolve fs) = audio_only"
  by (simp add: resolve_def curate_def Let_def split: prod.splits)

text \<open>
  C3. When no entry passes the AV test, the curated list is the best-quality fallback
  followed by the audio-only entry, with the selectors and containers the claim names;
  the same holds when the entries that pass have no bucket (a height that does not read
  as a number, or one above 2160). Whatever the input, the curated list is not empty.
\<close>

theorem no_av_formats:
  "((\<forall>f \<in> set fs. \<not> is_av f) \<longrightarrow> resolve fs = [best_quality, audio_only])
   \<and> ((\<forall>i \<in> set (av_formats hs). smallest_bucket hs i = None) \<longrightarrow>
        resolve hs = [best_quality, audio_only])
   \<and> resolve gs \<noteq> []
   \<and> format_id best_quality = Some ''best[ext=mp4]/best'' \<and> ext best_quality = ''mp4''
   \<and> format_id audio_only = Some ''bestaudio'' \<and> ext audio_only = ''mp3''
   \<and> vcodec audio_only = Some ''none''"
proof -
  have "(\<forall>f \<in> set fs. \<not> is_av f) \<longrightarrow> resolve fs = [best_quality, audio_only]"
    by (simp add: av_formats_none resolve_def curate_def resolution_formats_def
          label_formats_empty)
  moreover have "resolve hs = [best_quality, audio_only]"
    if "\<forall>i \<in> set (av_formats hs). smallest_bucket hs i = None"
  proof -
    have "resolution_formats hs res = None" for res
      unfolding resolution_formats_find using that by (simp add: find_None_iff)
    then have "resolution_formats hs = Map.empty"
      by (rule ext)
    then show ?thesis
      by (simp add: resolve_def curate_def label_formats_empty)
  qed
  moreover have "resolve gs \<noteq> []"
    using resolve_last by blast
  ultimately show ?thesis
    by (simp add: best_quality_def audio_only_def)
qed

theorem no_av_formats_witness:
  "\<not> is_av ((example_format ''V'' ''1920x1080'')\<lparr>acodec := Some ''none''\<rparr>)
   \<and> resolve [(example_format ''V'' ''1920x1080'')\<lparr>acodec := Some ''none''\<rparr>] =
       [best_quality, audio_only]"
  using no_av_formats [of "[(example_format ''V'' ''1920x1080'')\<lparr>acodec := Some ''none''\<rparr>]"]
  by (simp add: is_av_def example_format_def)

subsection \<open>Running the curation again on the relabelled store\<close>

lemma label_formats_refs:
  "snd (label_formats rf ts (st, acc)) = acc @ List.map_filter rf ts"
  by (induction ts arbitrary: st acc) (auto simp: List.map_filter_simps split: option.splits)

lemma label_formats_length:
  "length (fst (label_formats rf ts (st, acc))) = length st"
  by (induction ts arbitrary: st acc) (auto split: option.splits)

lemma label_formats_nth:
  "j < length st \<Longrightarrow>
     fst (label_formats rf ts (st, acc)) ! j =
       (st ! j)\<lparr>format_note := new_note rf ts j (format_note (st ! j))\<rparr>"
proof (induction ts arbitrary: st acc)
  case Nil
  then show ?case by simp
next
  case (Cons res rest)
  show ?case
  proof (cases "rf res")
    case None
    then show ?thesis using Cons by simp
  next
    case (Some i)
    then show ?thesis using Cons.prems
      by (simp add: Cons.IH nth_list_update)
  qed
qed

lemma new_note_idem:
  "new_note rf ts j (new_note rf ts j n) = new_note rf ts j n"
proof (induction ts arbitrary: n)
  case Nil
  then show ?case by simp
next
  case (Cons res rest)
  show ?case
  proof (cases "rf res = Some j")
    case True
    then show ?thesis by simp
  next
    case False
    then show ?thesis by (simp add: Cons.IH)
  qed
qed

lemma is_av_note: "is_av (f\<lparr>format_note := n\<rparr>) = is_av f"
  by (simp add: is_av_def)

lemma height_of_note: "height_of (f\<lparr>format_note := n\<rparr>) = height_of f"
  by (simp add: height_of_def)

lemma av_formats_store:
  assumes "length st = length fs"
    and "\<And>j. j < length fs \<Longrightarrow> \<exists>n. st ! j = (fs ! j)\<lparr>format_note := n\<rparr>"
  shows "av_formats st = av_formats fs"
proof -
  have "\<And>j. j < length fs \<Longrightarrow> is_av (st ! j) = is_av (fs ! j)"
    using assms(2) by (metis is_av_note)
  then show ?thesis
    unfolding av_formats_def assms(1) by (intro filter_cong) auto
qed

lemma foldl_claim_bucket_store:
  assumes "\<And>j. j \<in> set is \<Longrightarrow> height_of (st ! j) = height_of (fs ! j)"
  shows "foldl (claim_bucket st) rf is = foldl (claim_bucket fs) rf is"
  using assms
proof (induction "is" arbitrary: rf)
  case Nil
  then show ?case by simp
next
  case (Cons i "is")
  have "claim_bucket st rf i = claim_bucket fs rf i"
    using Cons.prems by (simp add: claim_bucket_def)
  then show ?case using Cons by simp
qed

lemma curate_eq:
  assumes "label_formats (resolution_formats fs) target_resolutions (fs, []) = (st, refs)"
  shows "curate fs =
           (st, (if refs = [] then [best_quality] else map ((!) st) refs) @ [audio_only])"
  unfolding curate_def assms by (simp add: Let_def)

lemma relabel_av:
  "av_formats (fst (label_formats rf ts (fs, acc))) = av_formats fs"
proof (rule av_formats_store)
  show "length (fst (label_formats rf ts (fs, acc))) = length fs"
    by (rule label_formats_length)
next
  fix j assume "j < length fs"
  then show "\<exists>n. fst (label_formats rf ts (fs, acc)) ! j = (fs ! j)\<lparr>format_note := n\<rparr>"
    using label_formats_nth [of j fs rf ts acc] by blast
qed

lemma relabel_resolution_formats:
  "resolution_formats (fst (label_formats rf ts (fs, acc))) = resolution_formats fs"
proof -
  have "height_of (fst (label_formats rf ts (fs, acc)) ! j) = height_of (fs ! j)"
    if "j \<in> set (av_formats fs)" for j
  proof -
    from that have "j < length fs"
      by (simp add: av_formats_def)
    then show ?thesis
      using label_formats_nth [of j fs rf ts acc] by (simp add: height_of_note)
  qed
  then show ?thesis
    unfolding resolution_formats_def relabel_av by (rule foldl_claim_bucket_store)
qed

lemma relabel_fixed:
  "fst (label_formats rf ts (fst (label_formats rf ts (fs, acc)), acc')) =
   fst (label_formats rf ts (fs, acc))"
proof (rule nth_equalityI)
  show "length (fst (label_formats rf ts (fst (label_formats rf ts (fs, acc)), acc'))) =
        length (fst (label_formats rf ts (fs, acc)))"
    by (simp only: label_formats_length)
next
  fix j
  assume "j < length (fst (label_formats rf ts (fst (label_formats rf ts (fs, acc)), acc')))"
  then have j: "j < length fs"
    by (simp only: label_formats_length)
  then have j': "j < length (fst (label_formats rf ts (fs, acc)))"
    by (simp only: label_formats_length)
  show "fst (label_formats rf ts (fst (label_formats rf ts (fs, acc)), acc')) ! j =
        fst (label_formats rf ts (fs, acc)) ! j"
    unfolding label_formats_nth [OF j'] unfolding label_formats_nth [OF j]
    by (simp add: new_note_idem)
qed

text \<open>
  C8. The curation writes the new notes into the entries it selects. Run again on the
  list it has written into, it leaves that list as it is and returns the same curated
  list: the selection reads the codecs, the container and the resolution only, and the
  note written for a bucket does not depend on the note found there.
\<close>

theorem curate_idempotent: "curate (fst (curate fs)) = curate fs"
proof -
  obtain st refs where first:
    "label_formats (resolution_formats fs) target_resolutions (fs, []) = (st, refs)"
    by (cases "label_formats (resolution_formats fs) target_resolutions (fs, [])")
  have st: "st = fst (label_formats (resolution_formats fs) target_resolutions (fs, []))"
    and refs: "refs = snd (label_formats (resolution_formats fs) target_resolutions (fs, []))"
    unfolding first by simp_all
  have rf: "resolution_formats st = resolution_formats fs"
    unfolding st by (rule relabel_resolution_formats)
  have "fst (label_formats (resolution_formats fs) target_resolutions (st, [])) = st"
    unfolding st by (rule relabel_fixed)
  moreover have "snd (label_formats (resolution_formats fs) target_resolutions (st, [])) = refs"
    unfolding refs label_formats_refs ..
  ultimately have second:
    "label_formats (resolution_formats st) target_resolutions (st, []) = (st, refs)"
    unfolding rf by (simp only: prod_eq_iff fst_conv snd_conv)
  show ?thesis
    unfolding curate_eq [OF first] fst_conv curate_eq [OF second] ..
qed

theorem curate_idempotent_witness:
  "snd (curate (fst (curate [example_format ''A'' ''1244x700'', example_format ''B'' ''266x150'']))) =
     [(example_format ''B'' ''266x150'')\<lparr>format_note := Some ''240p''\<rparr>,
      (example_format ''A'' ''1244x700'')\<lparr>format_note := Some ''720p''\<rparr>,
      audio_only]"
  using curate_idempotent [of "[example_format ''A'' ''1244x700'', example_format ''B'' ''266x150'']"]
        resolve_two [of "example_format ''A'' ''1244x700''" "example_format ''B'' ''266x150''"]
  by (simp add: resolve_def is_av_example height_example_700 height_example_150)

section \<open>Properties of the download name\<close>

lemma re_sub_chars_delete: "re_sub_chars cls [] s = filter (\<lambda>c. \<not> cls c) s"
  by (induction s) auto

lemma py_replace_chr_map:
  "py_replace_chr old [new] s = map (\<lambda>c. if c = old then new else c) s"
  by (induction s) auto

lemma set_strip_with: "set (strip_with space s) \<subseteq> set s"
proof -
  have "set (strip_with space s) \<subseteq> set (dropWhile space s)"
    unfolding strip_with_def using set_dropWhileD [of _ space "rev (dropWhile space s)"]
    by auto
  then show ?thesis
    using set_dropWhileD [of _ space s] by blast
qed

lemma sanitize_with_eq:
  "sanitize_with word space hyphen blank underscore title =
     map (\<lambda>c. if c = blank then underscore else c)
       (strip_with space (filter (\<lambda>c. word c \<or> space c \<or> c = hyphen) title))"
  by (simp add: sanitize_with_def re_sub_chars_delete py_replace_chr_map)

lemma sanitized_title_example: "sanitized_title ''Cat's Video: Part #1!'' = ''Cats_Video_Part_1''"
  by code_simp

text \<open>
  C4, as the code has it, for the titles whose white space is the space character only.
  Over any alphabet in which the underscore is a word character, the cleaned title is
  the title without the characters outside word characters, white space and hyphen,
  trimmed at both ends, with every remaining space replaced by one underscore: a run of
  several spaces gives as many underscores. What remains is made of word characters and
  hyphens. The title of the specification's example becomes \<open>Cats_Video_Part_1\<close>.
\<close>

theorem sanitized_title_spaces:
  assumes "word underscore"
    and "\<forall>c \<in> set title. space c \<longrightarrow> c = blank"
  shows "sanitize_with word space hyphen blank underscore title =
           map (\<lambda>c. if c = blank then underscore else c)
             (strip_with space (filter (\<lambda>c. word c \<or> space c \<or> c = hyphen) title))
       \<and> (\<forall>c \<in> set (sanitize_with word space hyphen blank underscore title).
             word c \<or> c = hyphen)
       \<and> sanitized_title ''Cat's Video: Part #1!'' = ''Cats_Video_Part_1''"
proof -
  let ?kept = "strip_with space (filter (\<lambda>c. word c \<or> space c \<or> c = hyphen) title)"
  have "word c \<or> c = hyphen"
    if "c \<in> set (sanitize_with word space hyphen blank underscore title)" for c
  proof -
    from that obtain d where d: "d \<in> set ?kept"
      and c: "c = (if d = blank then underscore else d)"
      unfolding sanitize_with_eq by auto
    from d set_strip_with [of space] have "d \<in> set title" and "word d \<or> space d \<or> d = hyphen"
      by fastforce+
    with assms c show ?thesis by auto
  qed
  then show ?thesis
    using sanitize_with_eq [of word space hyphen blank underscore title] sanitized_title_example
    by blast
qed

theorem sanitized_title_spaces_witness:
  "sanitized_title '' a  b-c '' = ''a__b-c''"
proof -
  have "is_word CHR ''_''"
    by (simp add: is_word_def)
  moreover have "\<forall>c \<in> set '' a  b-c ''. is_space c \<longrightarrow> c = CHR '' ''"
    by (simp add: is_space_def)
  ultimately show ?thesis
    using sanitized_title_spaces
            [of is_word "CHR ''_''" "'' a  b-c ''" is_space "CHR '' ''" "CHR ''-''"]
    by (simp add: sanitized_title_def strip_with_def is_space_def is_word_def)
qed

text \<open>
  C4, as the specification states it, fails on a title with two spaces between two
  letters: the code returns two underscores, one for each space, where the stated rule
  replaces the run and gives \<open>a_b\<close>.
\<close>

theorem whitespace_runs_counterexample:
  "sanitized_title ''a  b'' = ''a__b'' \<and> spec_sanitized_title ''a  b'' = ''a_b''"
  by (simp add: sanitized_title_def sanitize_with_def strip_with_def spec_sanitized_title_def
        py_strip_def is_space_def is_word_def)

section \<open>Properties of the URL Classifier\<close>

lemma search_any_iff: "search_any ps url \<longleftrightarrow> (\<exists>r \<in> set ps. re_search r url)"
  by (induction ps) auto

lemma validate_loop_iff:
  "validate_loop es h url \<longleftrightarrow>
     (\<exists>(p, ds, ps) \<in> set es. h \<in> set ds \<and> (\<exists>r \<in> set ps. re_search r url))"
  by (induction es h url rule: validate_loop.induct) (auto simp: list_ex_iff search_any_iff)

text \<open>Three facts about the table, by evaluation: no host name occurs twice in it, no two
  platforms have the same list of host names, and \<open>get_platform\<close> gives every host name of
  a platform the tag of that platform.\<close>

lemma domains_distinct: "distinct (concat (map (\<lambda>(p, ds, ps). ds) patterns))"
  by code_simp

lemma domain_lists_distinct: "distinct (map (\<lambda>(p, ds, ps). ds) patterns)"
  by code_simp

lemma tags_agree:
  "list_all (\<lambda>(p, ds, ps). list_all (\<lambda>h. platform_tag h = p) ds \<and> p \<noteq> ''unknown'') patterns"
  by code_simp

lemma domains_disjoint:
  assumes "(p, ds, ps) \<in> set patterns" "(p', ds', ps') \<in> set patterns"
    and "h \<in> set ds" "h \<in> set ds'"
  shows "ps = ps'"
proof -
  let ?f = "\<lambda>(p, ds, ps). ds :: string list"
  have in1: "ds \<in> set (map ?f patterns)" and in2: "ds' \<in> set (map ?f patterns)"
    using assms(1,2) by force+
  have "ds = ds'"
  proof (rule ccontr)
    assume "ds \<noteq> ds'"
    with domains_distinct in1 in2 have "set ds \<inter> set ds' = {}"
      unfolding distinct_concat_iff by blast
    with assms(3,4) show False by blast
  qed
  moreover have "inj_on ?f (set patterns)"
    using domain_lists_distinct by (simp add: distinct_map)
  ultimately have "(p, ds, ps) = (p', ds', ps')"
    using assms(1,2) by (intro inj_onD [of ?f "set patterns"]) simp_all
  then show ?thesis by simp
qed

lemma get_platform_tag:
  assumes "(p, ds, ps) \<in> set patterns" "netloc_of url = Inr loc" "py_lower loc \<in> set ds"
  shows "get_platform netloc_of url = Inr p \<and> p \<noteq> ''unknown''"
proof -
  from tags_agree assms(1) have "list_all (\<lambda>h. platform_tag h = p) ds \<and> p \<noteq> ''unknown''"
    unfolding list_all_iff by fastforce
  with assms(3) have "platform_tag (py_lower loc) = p \<and> p \<noteq> ''unknown''"
    unfolding list_all_iff by blast
  then show ?thesis
    by (simp add: get_platform_def assms(2))
qed

text \<open>
  What the code does for a URL whose network location, as a whole and lower-cased, is
  one of a platform's host names: if one of the platform's patterns is found in the URL,
  \<open>validate_url\<close> returns true; if none is, it returns false. In both cases
  \<open>get_platform\<close> returns the platform's tag, which is not \<open>unknown\<close>.
\<close>

lemma netloc_validate_and_classify:
  assumes "(platform, domains, pats) \<in> set patterns"
    and "netloc_of url = Inr loc"
    and "py_lower loc \<in> set domains"
  shows "((\<exists>r \<in> set pats. re_search r url) \<longrightarrow> validate_url netloc_of url = Inr True)
       \<and> ((\<forall>r \<in> set pats. \<not> re_search r url) \<longrightarrow> validate_url netloc_of url = Inr False)
       \<and> get_platform netloc_of url = Inr platform \<and> platform \<noteq> ''unknown''"
proof -
  have v: "validate_url netloc_of url = Inr (validate_loop patterns (py_lower loc) url)"
    by (simp add: validate_url_def assms(2))
  have "validate_loop patterns (py_lower loc) url \<longleftrightarrow> (\<exists>r \<in> set pats. re_search r url)"
  proof
    assume "validate_loop patterns (py_lower loc) url"
    then obtain p ds ps where e: "(p, ds, ps) \<in> set patterns" "py_lower loc \<in> set ds"
      and r: "\<exists>r \<in> set ps. re_search r url"
      unfolding validate_loop_iff by blast
    from domains_disjoint [OF e(1) assms(1) e(2) assms(3)] have "ps = pats" .
    with r show "\<exists>r \<in> set pats. re_search r url" by simp
  next
    assume "\<exists>r \<in> set pats. re_search r url"
    then show "validate_loop patterns (py_lower loc) url"
      unfolding validate_loop_iff using assms(1,3) by blast
  qed
  then show ?thesis
    using v get_platform_tag [of platform domains pats netloc_of url loc, OF assms] by auto
qed

lemma netloc_watch:
  "urlsplit_netloc ''https://www.youtube.com/watch?v=abc'' = Inr ''www.youtube.com''"
  by code_simp

lemma netloc_feed: "urlsplit_netloc ''https://www.youtube.com/feed'' = Inr ''www.youtube.com''"
  by code_simp

lemma search_watch: "re_search youtube_standard ''https://www.youtube.com/watch?v=abc''"
  by code_simp

lemma search_feed_standard: "\<not> re_search youtube_standard ''https://www.youtube.com/feed''"
  by code_simp

lemma search_feed_shorts: "\<not> re_search youtube_shorts ''https://www.youtube.com/feed''"
  by code_simp

lemma lower_host: "py_lower ''www.youtube.com'' = ''www.youtube.com''"
  by code_simp

lemma youtube_entry:
  "(''youtube'', youtube_domains, [youtube_standard, youtube_shorts]) \<in> set patterns"
  by (simp add: patterns_def)

lemma youtube_host: "py_lower ''www.youtube.com'' \<in> set youtube_domains"
  unfolding lower_host by (simp add: youtube_domains_def)

lemma netloc_validate_and_classify_example:
  "validate_url urlsplit_netloc ''https://www.youtube.com/watch?v=abc'' = Inr True
   \<and> get_platform urlsplit_netloc ''https://www.youtube.com/watch?v=abc'' = Inr ''youtube''
   \<and> validate_url urlsplit_netloc ''https://www.youtube.com/feed'' = Inr False
   \<and> get_platform urlsplit_netloc ''https://www.youtube.com/feed'' = Inr ''youtube''"
proof -
  have found: "\<exists>r \<in> set [youtube_standard, youtube_shorts].
                 re_search r ''https://www.youtube.com/watch?v=abc''"
    using search_watch by simp
  have none: "\<forall>r \<in> set [youtube_standard, youtube_shorts].
                 \<not> re_search r ''https://www.youtube.com/feed''"
    using search_feed_standard search_feed_shorts by simp
  from netloc_validate_and_classify
         [of "''youtube''" youtube_domains "[youtube_standard, youtube_shorts]" urlsplit_netloc
             "''https://www.youtube.com/watch?v=abc''" "''www.youtube.com''",
          OF youtube_entry netloc_watch youtube_host]
       netloc_validate_and_classify
         [of "''youtube''" youtube_domains "[youtube_standard, youtube_shorts]" urlsplit_netloc
             "''https://www.youtube.com/feed''" "''www.youtube.com''",
          OF youtube_entry netloc_feed youtube_host]
       found none
  show ?thesis by blast
qed

lemma userinfo_netloc: "urlsplit_netloc ''https://u@youtu.be/abc'' = Inr ''u@youtu.be''"
  by code_simp

lemma userinfo_hostname: "url_hostname ''u@youtu.be'' = Some ''youtu.be''"
  by code_simp

lemma userinfo_search: "re_search youtube_standard ''https://u@youtu.be/abc''"
  by code_simp

lemma userinfo_validate: "validate_url urlsplit_netloc ''https://u@youtu.be/abc'' = Inr False"
  by code_simp

lemma userinfo_platform: "get_platform urlsplit_netloc ''https://u@youtu.be/abc'' = Inr ''unknown''"
  by code_simp

lemma port_netloc:
  "urlsplit_netloc ''https://www.youtube.com:443/watch?v=abc'' = Inr ''www.youtube.com:443''"
  by code_simp

lemma port_hostname: "url_hostname ''www.youtube.com:443'' = Some ''www.youtube.com''"
  by code_simp

lemma port_search_standard:
  "\<not> re_search youtube_standard ''https://www.youtube.com:443/watch?v=abc''"
  by code_simp

lemma port_search_shorts:
  "\<not> re_search youtube_shorts ''https://www.youtube.com:443/watch?v=abc''"
  by code_simp

lemma port_validate:
  "validate_url urlsplit_netloc ''https://www.youtube.com:443/watch?v=abc'' = Inr False"
  by code_simp

lemma port_platform:
  "get_platform urlsplit_netloc ''https://www.youtube.com:443/watch?v=abc'' = Inr ''unknown''"
  by code_simp

text \<open>
  C5 speaks of the host name of the URL. The code compares the whole network location,
  which it stores in a variable named \<open>hostname\<close>, with the host names of the table; the
  two differ when the URL carries user information or a port. The URL
  \<open>https://u@youtu.be/abc\<close> has the host name \<open>youtu.be\<close>, which is in the YouTube
  list, and the first YouTube pattern is found in it; the code returns false for it and
  the tag \<open>unknown\<close>. The URL \<open>https://www.youtube.com:443/watch?v=abc\<close> has the host
  name \<open>www.youtube.com\<close> and no YouTube pattern is found in it; the code returns false
  for it, but the tag \<open>unknown\<close> and not \<open>youtube\<close>.
\<close>

theorem netloc_is_not_hostname:
  "urlsplit_netloc ''https://u@youtu.be/abc'' = Inr ''u@youtu.be''
   \<and> url_hostname ''u@youtu.be'' = Some ''youtu.be''
   \<and> ''youtu.be'' \<in> set youtube_domains
   \<and> re_search youtube_standard ''https://u@youtu.be/abc''
   \<and> validate_url urlsplit_netloc ''https://u@youtu.be/abc'' = Inr False
   \<and> get_platform urlsplit_netloc ''https://u@youtu.be/abc'' = Inr ''unknown''
   \<and> urlsplit_netloc ''https://www.youtube.com:443/watch?v=abc'' = Inr ''www.youtube.com:443''
   \<and> url_hostname ''www.youtube.com:443'' = Some ''www.youtube.com''
   \<and> ''www.youtube.com'' \<in> set youtube_domains
   \<and> \<not> re_search youtube_standard ''https://www.youtube.com:443/watch?v=abc''
   \<and> \<not> re_search youtube_shorts ''https://www.youtube.com:443/watch?v=abc''
   \<and> validate_url urlsplit_netloc ''https://www.youtube.com:443/watch?v=abc'' = Inr False
   \<and> get_platform urlsplit_netloc ''https://www.youtube.com:443/watch?v=abc'' = Inr ''unknown''"
proof -
  have "''youtu.be'' \<in> set youtube_domains" "''www.youtube.com'' \<in> set youtube_domains"
    by (simp_all add: youtube_domains_def)
  then show ?thesis
    using userinfo_netloc userinfo_hostname userinfo_search userinfo_validate userinfo_platform
          port_netloc port_hostname port_search_standard port_search_shorts port_validate
          port_platform
    by blast
qed

lemma validate_loop_query:
  "validate_loop patterns ''www.youtube.com'' ''https://www.youtube.com/feed?x=youtu.be/abc''"
  by code_simp

lemma urlsplit_query:
  "urlsplit ''https://www.youtube.com/feed?x=youtu.be/abc'' =
     Inr \<lparr>scheme = ''https'', netloc = ''www.youtube.com'', path = ''/feed'',
          query = ''x=youtu.be/abc'', fragment = []\<rparr>"
  by code_simp

lemma search_path_standard: "\<not> re_search youtube_standard ''/feed''"
  by code_simp

lemma search_path_shorts: "\<not> re_search youtube_shorts ''/feed''"
  by code_simp

lemma search_query: "re_search youtube_standard ''x=youtu.be/abc''"
  by code_simp

text \<open>
  C10. The patterns are searched in the whole URL. The URL
  \<open>https://www.youtube.com/feed?x=youtu.be/abc\<close> has a YouTube host name and the path
  \<open>/feed\<close>, in which neither YouTube pattern is found; yet \<open>validate_url\<close> returns
  true for it, whenever \<open>urlparse\<close> gives \<open>www.youtube.com\<close> as its network location,
  because the first pattern is found in its query string.
\<close>

theorem pattern_outside_path:
  "(netloc_of ''https://www.youtube.com/feed?x=youtu.be/abc'' = Inr ''www.youtube.com''
      \<longrightarrow> validate_url netloc_of ''https://www.youtube.com/feed?x=youtu.be/abc'' = Inr True)
   \<and> urlsplit ''https://www.youtube.com/feed?x=youtu.be/abc'' =
       Inr \<lparr>scheme = ''https'', netloc = ''www.youtube.com'', path = ''/feed'',
            query = ''x=youtu.be/abc'', fragment = []\<rparr>
   \<and> ''www.youtube.com'' \<in> set youtube_domains
   \<and> \<not> re_search youtube_standard ''/feed'' \<and> \<not> re_search youtube_shorts ''/feed''
   \<and> re_search youtube_standard ''x=youtu.be/abc''"
proof -
  have "validate_url netloc_of ''https://www.youtube.com/feed?x=youtu.be/abc'' = Inr True"
    if "netloc_of ''https://www.youtube.com/feed?x=youtu.be/abc'' = Inr ''www.youtube.com''"
    unfolding validate_url_def that using validate_loop_query by (simp add: lower_host)
  moreover have "''www.youtube.com'' \<in> set youtube_domains"
    by (simp add: youtube_domains_def)
  ultimately show ?thesis
    using urlsplit_query search_path_standard search_path_shorts search_query by blast
qed

theorem pattern_outside_path_witness:
  "validate_url urlsplit_netloc ''https://www.youtube.com/feed?x=youtu.be/abc'' = Inr True"
proof -
  have "urlsplit_netloc ''https://www.youtube.com/feed?x=youtu.be/abc'' = Inr ''www.youtube.com''"
    unfolding urlsplit_netloc_def urlsplit_query by simp
  then show ?thesis
    using pattern_outside_path [of urlsplit_netloc] by blast
qed

section \<open>Properties of the Job Manager and of retrieval\<close>

lemma validate_watch:
  "validate_url urlsplit_netloc ''https://www.youtube.com/watch?v=abc'' = Inr True"
  by code_simp

lemma validate_feed: "validate_url urlsplit_netloc ''https://www.youtube.com/feed'' = Inr False"
  by code_simp


lemma validate_then_platform:
  "validate_url netloc_of u = Inr b \<Longrightarrow> \<exists>p. get_platform netloc_of u = Inr p"
  by (auto simp: validate_url_def get_platform_def split: sum.splits)

text \<open>
  What the code does at its two early returns. A submission with the URL or the format
  missing or empty, or with a URL for which \<open>validate_url\<close> returns false, is answered
  with an error and status 400; the state, and so the job table, is the one before the
  call, and the answer does not depend on what the identifier generator, the provider
  or the database would have returned: none of them is used. When \<open>validate_url\<close>
  raises, the exception leaves the view, and the state is unchanged there too.
\<close>

lemma early_returns:
  "(\<not> truthy url_field \<or> \<not> truthy format_field \<longrightarrow>
      download netloc_of env st url_field format_field =
        (st, JsonError 400 ''URL and format are required''))
   \<and> (truthy url_field \<and> truthy format_field \<and>
        validate_url netloc_of (the url_field) = Inr False \<longrightarrow>
      download netloc_of env st url_field format_field = (st, JsonError 400 invalid_url_message))
   \<and> (truthy url_field \<and> truthy format_field \<and>
        validate_url netloc_of (the url_field) = Inl e \<longrightarrow>
      download netloc_of env st url_field format_field = (st, Unhandled e))
   \<and> ((\<not> truthy url_field \<or> \<not> truthy format_field \<or>
         validate_url netloc_of (the url_field) = Inr False) \<longrightarrow>
      download netloc_of env st url_field format_field =
        download netloc_of env' st url_field format_field
      \<and> status_code (snd (download netloc_of env st url_field format_field)) = 400
      \<and> fst (download netloc_of env st url_field format_field) = st)"
  by (simp add: download_def)

lemma early_returns_example:
  "download urlsplit_netloc (failing_env ''id2'') example_state
     (Some ''https://www.youtube.com/feed'') (Some ''18'') =
   (example_state, JsonError 400 invalid_url_message)
   \<and> download urlsplit_netloc (failing_env ''id2'') example_state (Some []) (Some ''18'') =
       (example_state, JsonError 400 ''URL and format are required'')"
  using early_returns
          [where url_field = "Some ''https://www.youtube.com/feed''"
             and format_field = "Some ''18''" and netloc_of = urlsplit_netloc
             and env = "failing_env ''id2''" and st = example_state]
        early_returns
          [where url_field = "Some []" and format_field = "Some ''18''"
             and netloc_of = urlsplit_netloc and env = "failing_env ''id2''"
             and st = example_state]
        validate_feed
  by (simp add: truthy_def)

lemma bracket_validate:
  "validate_url urlsplit_netloc ''https://[youtu.be/abc'' = Inl (ValueError ''Invalid IPv6 URL'')"
  by code_simp

text \<open>
  C7 asks for status 400 and an unchanged job table for every URL that does not pass
  validation. The code calls \<open>validate_url\<close> before its \<open>try\<close>. For the URL
  \<open>https://[youtu.be/abc\<close>, whose network location has an opening square bracket and
  no closing one, \<open>urlparse\<close> raises \<open>ValueError\<close>: validation does not return, the
  exception leaves the view and the request is answered with status 500, not 400. The
  state is unchanged there as well: no job entry is created.
\<close>

theorem malformed_url_unhandled:
  "validate_url urlsplit_netloc ''https://[youtu.be/abc'' = Inl (ValueError ''Invalid IPv6 URL'')
   \<and> download urlsplit_netloc env st (Some ''https://[youtu.be/abc'') (Some ''18'') =
       (st, Unhandled (ValueError ''Invalid IPv6 URL''))
   \<and> status_code (snd (download urlsplit_netloc env st (Some ''https://[youtu.be/abc'')
                          (Some ''18''))) = 500"
  using bracket_validate by (simp add: download_def truthy_def)

theorem malformed_url_unhandled_witness:
  "download urlsplit_netloc (failing_env ''id2'') example_state
     (Some ''https://[youtu.be/abc'') (Some ''18'') =
   (example_state, Unhandled (ValueError ''Invalid IPv6 URL''))"
  using malformed_url_unhandled [of "failing_env ''id2''" example_state] by blast




lemma download_job_other:
  "i \<noteq> uuid4 env \<Longrightarrow> downloads (fst (download_job env st u fid p)) i = downloads st i"
  by (simp add: download_job_def Let_def split: sum.splits prod.splits)

lemma download_other:
  "i \<noteq> uuid4 env \<Longrightarrow> downloads (fst (download netloc_of env st u f)) i = downloads st i"
  by (simp add: download_def download_job_other split: sum.splits)

lemma handle_other:
  "\<not> draws r i \<Longrightarrow> downloads (fst (handle netloc_of st r)) i = downloads st i"
proof (cases r)
  case (PostDownload u f env)
  assume "\<not> draws r i"
  with PostDownload show ?thesis by (simp add: download_other)
next
  case (DeleteDownload key committed)
  then show ?thesis by (simp add: delete_download_def split: sum.splits)
qed simp_all

lemma run_other:
  "\<forall>r \<in> set rs. \<not> draws r i \<Longrightarrow> downloads (run netloc_of st rs) i = downloads st i"
  by (induction rs arbitrary: st) (simp_all add: handle_other)

lemma select_format_ok:
  "info_formats info \<noteq> Null \<Longrightarrow> \<exists>sel. select_format info fid = Inr sel"
  by (cases "info_formats info"; cases "find_format (the (py_get_default [] (info_formats info))) fid")
     (simp_all add: select_format_def)

lemma download_job_fails:
  assumes "extract_info env = Inr info" "info_formats info \<noteq> Null" "ydl_download env = Inl e"
  shows "snd (download_job env st u fid p) = JsonError 500 (exn_str e)
       \<and> db_rows (fst (download_job env st u fid p)) = db_rows st
       \<and> (\<exists>j. downloads (fst (download_job env st u fid p)) (uuid4 env) = Some j
              \<and> status j = ''downloading'' \<and> job_url j = u)"
proof -
  obtain sel where "select_format info fid = Inr sel"
    using select_format_ok [OF assms(2)] by blast
  then show ?thesis
    using assms(1,3) by (cases sel) (simp add: download_job_def Let_def)
qed

text \<open>
  C9. A download passes validation, the provider's metadata is read, the job entry is
  recorded, and then the provider's download raises. The request is answered with 500,
  no row is added to the database, and the job table holds the entry with status
  \<open>downloading\<close>. Whatever requests follow, as long as the identifier generator does
  not return the same identifier again, the entry stays as it is, and \<open>get_file\<close> for
  it aborts with 400.
\<close>

theorem failed_download_stays:
  assumes "truthy url_field" "truthy format_field"
    and "validate_url netloc_of (the url_field) = Inr True"
    and "extract_info env = Inr info" "info_formats info \<noteq> Null"
    and "ydl_download env = Inl e"
    and "\<forall>r \<in> set rs. \<not> draws r (uuid4 env)"
  shows "snd (download netloc_of env st url_field format_field) = JsonError 500 (exn_str e)
       \<and> db_rows (fst (download netloc_of env st url_field format_field)) = db_rows st
       \<and> (\<exists>j. downloads (fst (download netloc_of env st url_field format_field)) (uuid4 env) = Some j
              \<and> status j = ''downloading''
              \<and> downloads (run netloc_of (fst (download netloc_of env st url_field format_field)) rs)
                   (uuid4 env) = Some j)
       \<and> get_file netloc_of genv
            (run netloc_of (fst (download netloc_of env st url_field format_field)) rs) (uuid4 env)
          = Abort 400 (Some ''Download not completed yet'')"
proof -
  obtain p where p: "get_platform netloc_of (the url_field) = Inr p"
    using validate_then_platform [OF assms(3)] by blast
  have d: "download netloc_of env st url_field format_field =
           download_job env st (the url_field) (the format_field) p"
    using assms(1-3) p by (simp add: download_def)
  from download_job_fails [OF assms(4-6), of st "the url_field" "the format_field" p]
  obtain j where j: "downloads (fst (download_job env st (the url_field) (the format_field) p))
                       (uuid4 env) = Some j" "status j = ''downloading''"
    and r: "snd (download_job env st (the url_field) (the format_field) p) = JsonError 500 (exn_str e)"
           "db_rows (fst (download_job env st (the url_field) (the format_field) p)) = db_rows st"
    by blast
  have later: "downloads (run netloc_of (fst (download_job env st (the url_field) (the format_field) p)) rs)
                 (uuid4 env) = Some j"
    using run_other [OF assms(7)] j(1) by simp
  then have "get_file netloc_of genv
               (run netloc_of (fst (download_job env st (the url_field) (the format_field) p)) rs)
               (uuid4 env) = Abort 400 (Some ''Download not completed yet'')"
    using j(2) by (simp add: get_file_def)
  with j r later show ?thesis
    unfolding d by blast
qed

theorem failed_download_stays_witness:
  "snd (download urlsplit_netloc (failing_env ''id2'') example_state
          (Some ''https://www.youtube.com/watch?v=abc'') (Some ''18'')) =
     JsonError 500 ''ERROR: unable to download video data''
   \<and> get_file urlsplit_netloc example_get_env
        (run urlsplit_netloc
           (fst (download urlsplit_netloc (failing_env ''id2'') example_state
                   (Some ''https://www.youtube.com/watch?v=abc'') (Some ''18'')))
           [GetFile ''id2'' example_get_env,
            PostDownload (Some ''https://www.youtube.com/watch?v=abc'') (Some ''18'')
              (failing_env ''id3'')])
        ''id2'' = Abort 400 (Some ''Download not completed yet'')"
proof -
  have "truthy (Some ''https://www.youtube.com/watch?v=abc'')" "truthy (Some ''18'')"
    by (simp_all add: truthy_def)
  moreover have "extract_info (failing_env ''id2'') = Inr example_info"
    "ydl_download (failing_env ''id2'') = Inl (DownloadError ''ERROR: unable to download video data'')"
    "uuid4 (failing_env ''id2'') = ''id2''"
    by (simp_all add: failing_env_def)
  moreover have "info_formats example_info \<noteq> Null"
    by (simp add: example_info_def)
  moreover have "\<forall>r \<in> set [GetFile ''id2'' example_get_env,
            PostDownload (Some ''https://www.youtube.com/watch?v=abc'') (Some ''18'')
              (failing_env ''id3'')]. \<not> draws r (uuid4 (failing_env ''id2''))"
    by (simp add: failing_env_def)
  ultimately show ?thesis
    using failed_download_stays
            [of "Some ''https://www.youtube.com/watch?v=abc''" "Some ''18''" urlsplit_netloc
                "failing_env ''id2''" example_info
                "DownloadError ''ERROR: unable to download video data''"
                "[GetFile ''id2'' example_get_env,
                  PostDownload (Some ''https://www.youtube.com/watch?v=abc'') (Some ''18'')
                    (failing_env ''id3'')]"
                example_state example_get_env]
          validate_watch
    by simp
qed

end
